theory Spec2Isabelle
  imports Complex_Main "HOL-Library.Multiset"
begin

section \<open>The rating predictor's model-selection script\<close>

text \<open>
  The repository is one Python script, \<^verbatim>\<open>src/imdb_rating_predict_model.py\<close>: five module
  constants, the function \<^verbatim>\<open>main(train, out)\<close> and the command-line entry point. \<^verbatim>\<open>main\<close>
  is a straight line of calls into pandas, scikit-learn, numpy, joblib and the operating
  system. The embedding keeps that shape: \<^verbatim>\<open>main\<close> is one definition whose steps are the
  statements of the source in their order, every statement that can raise is a branch
  returning \<open>Inl\<close>, and every effect that completes (a line printed, a file written, a
  directory made) is appended to a trace. What the libraries compute (parsing a CSV file,
  cross-validating and fitting a pipeline, writing files) is a parameter of the model, the
  record \<open>externals\<close>; what the script itself fixes (the constants, the grid, the order of
  the steps, the use of the global \<^verbatim>\<open>arguments\<close>) is modelled from the source.
\<close>

subsection \<open>Values, errors, data frames\<close>

type_synonym path = string

text \<open>A cell of a data frame: text, or a number (floating point read as an exact rational).\<close>

datatype cell = Str string | Num rat

text \<open>
  The exceptions a run can end with. \<open>LibraryError\<close> is any exception raised inside an
  external collaborator, with its message; the others are raised by steps modelled here.
\<close>

datatype error =
    KeyError "string list"
  | NameError string
  | ZeroDivisionError
  | ValueError string
  | UnknownCategoryError cell
  | LibraryError string

text \<open>
  A pandas data frame: its column labels and its rows, a row giving the cell under each
  label. Only the cells under a label of \<open>columns\<close> are part of the frame.
\<close>

record dataframe =
  columns :: "string list"
  rows :: "(string \<Rightarrow> cell) list"

text \<open>\<^verbatim>\<open>df.drop(columns=labels)\<close>: a label that is not a column raises \<^verbatim>\<open>KeyError\<close>.\<close>

definition drop_columns :: "string list \<Rightarrow> dataframe \<Rightarrow> error + dataframe" where
  "drop_columns labels df =
     (case filter (\<lambda>l. l \<notin> set (columns df)) labels of
        [] \<Rightarrow> Inr (df\<lparr>columns := filter (\<lambda>c. c \<notin> set labels) (columns df)\<rparr>)
      | m # ms \<Rightarrow> Inl (KeyError (m # ms)))"

text \<open>\<^verbatim>\<open>df[label]\<close>: the column under a label, \<^verbatim>\<open>KeyError\<close> when there is none.\<close>

definition getitem :: "string \<Rightarrow> dataframe \<Rightarrow> error + cell list" where
  "getitem label df =
     (if label \<in> set (columns df) then Inr (map (\<lambda>r. r label) (rows df))
      else Inl (KeyError [label]))"

subsection \<open>Module constants (lines 33 to 37)\<close>

definition numeric_features :: "string list" where
  "numeric_features = [''n_words'']"

definition text_feature :: string where
  "text_feature = ''Text''"

definition ordinal_features :: "string list" where
  "ordinal_features = [''sentiment'']"

definition drop_features :: "string list" where
  "drop_features = [''Id'', ''Author'']"

definition target :: string where
  "target = ''Rating''"

subsection \<open>The pipeline and the grid (lines 46 to 64)\<close>

text \<open>
  The configuration of \<^verbatim>\<open>ml_pipe\<close>: the arguments the source passes to the count
  vectorizer and to the ordinal encoder, and the regressor's strength, which \<^verbatim>\<open>Ridge()\<close>
  leaves at its default 1. The standard scaler takes no argument.
\<close>

record pipeline =
  max_features :: nat
  stop_words :: string
  ordinal_categories :: "string list list"
  ridge_alpha :: int

definition ml_pipe :: pipeline where
  "ml_pipe = \<lparr>max_features = 20000, stop_words = ''english'',
     ordinal_categories = [[''neg'', ''compound'', ''neu'', ''pos'']], ridge_alpha = 1\<rparr>"

text \<open>
  An estimator object: its parameters and, once \<^verbatim>\<open>fit\<close> has run, what was learnt.
\<close>

record 'm estimator =
  params :: pipeline
  fitted :: "'m option"

text \<open>
  \<^verbatim>\<open>np.arange(start, stop, step)\<close> on integers: \<open>\<lceil>(stop - start) / step\<rceil>\<close> values from
  \<open>start\<close> in steps of \<open>step\<close>, none when that count is not positive; a zero step raises.
\<close>

definition arange :: "int \<Rightarrow> int \<Rightarrow> int \<Rightarrow> error + int list" where
  "arange start stop step =
     (if step = 0 then Inl ZeroDivisionError
      else Inr (map (\<lambda>i. start + int i * step) [0 ..< nat (- ((start - stop) div step))]))"

definition param_grid :: "error + int list" where
  "param_grid = arange 500 1000 50"

subsection \<open>External collaborators\<close>

text \<open>
  One row of \<^verbatim>\<open>cv_results_\<close>: the candidate's strength and its scores. The scores are
  floating-point numbers in the source; the model compares them in an arbitrary linear
  order \<open>'sc\<close> and never computes with them.
\<close>

record 'sc fold_scores =
  split_test_scores :: "'sc list"
  mean_test_score :: 'sc
  mean_train_score :: 'sc

record 'sc cv_result = "'sc fold_scores" +
  param_ridge_alpha :: int

text \<open>
  What the libraries do, as parameters of the model. Each returns the message of the
  exception it raises, or its result:
  \<^item> \<open>read_csv\<close>: \<^verbatim>\<open>pd.read_csv\<close>;
  \<^item> \<open>cross_validate\<close>: the cross-validation of one candidate inside
    \<^verbatim>\<open>GridSearchCV.fit\<close> (splitting into folds, fitting on each training part, scoring
    with R2 on each held-out part, averaging), and with it the library's treatment of a
    fold whose fit raises;
  \<^item> \<open>fit_pipeline\<close>: \<^verbatim>\<open>Pipeline.fit\<close> on given rows and targets;
  \<^item> \<open>show_score\<close>: the formatting of a score in an f-string;
  \<^item> \<open>to_csv\<close>, \<open>mkdir\<close>, \<open>dump\<close>: \<^verbatim>\<open>DataFrame.to_csv\<close>,
    \<^verbatim>\<open>Path.mkdir(parents=True, exist_ok=True)\<close> and \<^verbatim>\<open>joblib.dump\<close>, which either
    complete or raise.
\<close>

record ('m, 'sc) externals =
  read_csv :: "path \<Rightarrow> string + dataframe"
  cross_validate :: "pipeline \<Rightarrow> dataframe \<Rightarrow> cell list \<Rightarrow> string + 'sc fold_scores"
  fit_pipeline :: "pipeline \<Rightarrow> dataframe \<Rightarrow> cell list \<Rightarrow> string + 'm"
  show_score :: "'sc \<Rightarrow> string"
  to_csv :: "'sc cv_result list \<Rightarrow> path \<Rightarrow> string option"
  mkdir :: "path \<Rightarrow> string option"
  dump :: "'m estimator \<Rightarrow> path \<Rightarrow> nat \<Rightarrow> string option"

text \<open>
  The effects of a run that completed, in the order they happened: a line printed by the
  script, the report written, the step \<^verbatim>\<open>Path(out).mkdir(parents=True, exist_ok=True)\<close>
  done, the model written. What the libraries print themselves is not recorded.
\<close>

datatype ('m, 'sc) event =
    Print string
  | ToCsv "'sc cv_result list" path
  | Mkdir path
  | Dump "'m estimator" path nat

text \<open>\<^verbatim>\<open>os.path.join(a, b)\<close> of \<^verbatim>\<open>posixpath\<close>, for two components.\<close>

definition path_join :: "path \<Rightarrow> path \<Rightarrow> path" where
  "path_join a b =
     (if b \<noteq> [] \<and> hd b = CHR ''/'' then b
      else if a = [] \<or> last a = CHR ''/'' then a @ b
      else a @ ''/'' @ b)"

text \<open>Running a fallible step over a list, stopping at the first exception.\<close>

fun traverse :: "('a \<Rightarrow> 'e + 'b) \<Rightarrow> 'a list \<Rightarrow> 'e + 'b list" where
  "traverse f [] = Inr []"
| "traverse f (x # xs) =
     (case f x of
        Inl e \<Rightarrow> Inl e
      | Inr y \<Rightarrow> (case traverse f xs of Inl e \<Rightarrow> Inl e | Inr ys \<Rightarrow> Inr (y # ys)))"

subsection \<open>The hyperparameter search (lines 65 to 71)\<close>

text \<open>
  Modelled from the spec: \<^verbatim>\<open>Pipeline.fit(X, y)\<close> of scikit-learn on an estimator object,
  which is not part of the repository. The spec: \<^verbatim>\<open>fit(rows, targets)\<close> mutates the
  preprocessor's learned state and the regressor's coefficients using only the given
  rows; each refit is from scratch. What is learnt is computed from the parameters and
  the data alone and replaces what the object held; the parameters stay.
\<close>

definition fit_estimator ::
  "('m, 'sc) externals \<Rightarrow> 'm estimator \<Rightarrow> dataframe \<Rightarrow> cell list \<Rightarrow> error + 'm estimator" where
  "fit_estimator ext est X y =
     (case fit_pipeline ext (params est) X y of
        Inl msg \<Rightarrow> Inl (LibraryError msg)
      | Inr m \<Rightarrow> Inr (est\<lparr>fitted := Some m\<rparr>))"

text \<open>
  Modelled from the spec: the selection of the best candidate inside scikit-learn's
  \<^verbatim>\<open>GridSearchCV\<close>, which is not part of the repository. The spec: the best entry has the
  highest mean held-out score, ties broken by candidate enumeration order, first-seen
  wins. The candidates are walked in enumeration order and the best so far is replaced
  only by a strictly higher mean.
\<close>

fun select_best ::
  "nat \<times> 'sc::linorder cv_result \<Rightarrow> nat \<Rightarrow> 'sc cv_result list \<Rightarrow> nat \<times> 'sc cv_result" where
  "select_best b i [] = b"
| "select_best b i (r # rs) =
     (if mean_test_score (snd b) < mean_test_score r then select_best (i, r) (Suc i) rs
      else select_best b (Suc i) rs)"

record ('m, 'sc) grid_search =
  cv_results :: "'sc cv_result list"
  best_index :: nat
  best_score :: 'sc
  best_estimator :: "'m estimator"

text \<open>
  One candidate's row: the pipeline with its strength set to the candidate is
  cross-validated by the library.
\<close>

definition evaluate_candidate ::
  "('m, 'sc) externals \<Rightarrow> pipeline \<Rightarrow> dataframe \<Rightarrow> cell list \<Rightarrow> int \<Rightarrow> error + 'sc cv_result" where
  "evaluate_candidate ext pipe X y a =
     (case cross_validate ext (pipe\<lparr>ridge_alpha := a\<rparr>) X y of
        Inl msg \<Rightarrow> Inl (LibraryError msg)
      | Inr sc \<Rightarrow> Inr (fold_scores.extend sc (cv_result.fields a)))"

text \<open>
  Modelled from the spec: \<^verbatim>\<open>GridSearchCV(ml_pipe, param_grid=...).fit(X, y)\<close> of
  scikit-learn, which is not part of the repository. The spec: every candidate of the
  finite ordered candidate set is evaluated by cross-validation; after evaluation the
  candidate with the highest mean held-out score is selected (first on tie) and a
  pipeline with that candidate's configuration is refit on the entire training frame.
  An exception leaving the cross-validation of a candidate or the refit leaves the
  search. A search over no candidate has no best entry and raises.
\<close>

definition grid_search_fit ::
  "('m, 'sc::linorder) externals \<Rightarrow> pipeline \<Rightarrow> int list \<Rightarrow> dataframe \<Rightarrow> cell list
     \<Rightarrow> error + ('m, 'sc) grid_search" where
  "grid_search_fit ext pipe grid X y =
     (case traverse (evaluate_candidate ext pipe X y) grid of
        Inl e \<Rightarrow> Inl e
      | Inr [] \<Rightarrow> Inl (ValueError ''No fits were performed'')
      | Inr (r # rs) \<Rightarrow>
          (let (i, best) = select_best (0, r) 1 rs in
           case fit_estimator ext
                  \<lparr>params = pipe\<lparr>ridge_alpha := param_ridge_alpha best\<rparr>, fitted = None\<rparr> X y of
             Inl e \<Rightarrow> Inl e
           | Inr est \<Rightarrow>
               Inr \<lparr>cv_results = r # rs, best_index = i,
                    best_score = mean_test_score best, best_estimator = est\<rparr>))"

subsection \<open>The report's order (lines 75 and 76)\<close>

text \<open>
  Modelled from the spec: \<^verbatim>\<open>DataFrame.sort_values(by='mean_test_score', ascending=False)\<close>
  of pandas, which is not part of the repository. The spec: the report's rows are sorted
  by descending mean held-out score. Each row is inserted in front of the first row whose
  key is not higher; the order the library gives to rows of equal keys is not modelled.
\<close>

fun insert_desc :: "('a \<Rightarrow> 'k::linorder) \<Rightarrow> 'a \<Rightarrow> 'a list \<Rightarrow> 'a list" where
  "insert_desc key x [] = [x]"
| "insert_desc key x (y # ys) =
     (if key y \<le> key x then x # y # ys else y # insert_desc key x ys)"

fun sort_values_desc :: "('a \<Rightarrow> 'k::linorder) \<Rightarrow> 'a list \<Rightarrow> 'a list" where
  "sort_values_desc key [] = []"
| "sort_values_desc key (x # xs) = insert_desc key x (sort_values_desc key xs)"

subsection \<open>\<^verbatim>\<open>main\<close> (lines 40 to 86)\<close>

text \<open>
  \<open>main ext arguments train out\<close> is \<^verbatim>\<open>main(train, out)\<close> run with the libraries \<open>ext\<close> in
  a module whose global \<^verbatim>\<open>arguments\<close> is bound to the dictionary \<open>a\<close> when
  \<open>arguments = Some a\<close> and is not bound when \<open>arguments = None\<close>. The result is the trace
  of the effects that completed, and \<open>Inr ()\<close> when \<^verbatim>\<open>main\<close> returns or \<open>Inl e\<close> when it
  ends with the exception \<open>e\<close>. No statement of \<^verbatim>\<open>main\<close> is inside a \<^verbatim>\<open>try\<close>.
\<close>

definition main ::
  "('m, 'sc::linorder) externals \<Rightarrow> (string \<rightharpoonup> string) option \<Rightarrow> path \<Rightarrow> path
     \<Rightarrow> ('m, 'sc) event list \<times> (error + unit)" where
  "main ext arguments train out =
    (case read_csv ext train of Inl msg \<Rightarrow> ([], Inl (LibraryError msg)) | Inr train_df \<Rightarrow>
    (case drop_columns ([target] @ drop_features) train_df of Inl e \<Rightarrow> ([], Inl e) | Inr X_train \<Rightarrow>
    (case getitem target train_df of Inl e \<Rightarrow> ([], Inl e) | Inr y_train \<Rightarrow>
    (let t1 = [Print ''Searching for hyper-parameters''] in
    (case param_grid of Inl e \<Rightarrow> (t1, Inl e) | Inr grid \<Rightarrow>
    (case grid_search_fit ext ml_pipe grid X_train y_train of Inl e \<Rightarrow> (t1, Inl e) | Inr search \<Rightarrow>
    (let t2 = t1 @ [Print (''R2 score for best model: '' @ show_score ext (best_score search))];
         result = sort_values_desc mean_test_score (cv_results search);
         report = path_join out ''hyper_param_search_result.csv'' in
    (case to_csv ext result report of Some msg \<Rightarrow> (t2, Inl (LibraryError msg)) | None \<Rightarrow>
    (let t3 = t2 @ [ToCsv result report] in
    (case fit_estimator ext (best_estimator search) X_train y_train of Inl e \<Rightarrow> (t3, Inl e)
     | Inr final_model \<Rightarrow>
    (case arguments of None \<Rightarrow> (t3, Inl (NameError ''arguments'')) | Some a \<Rightarrow>
    (case a ''<out>'' of None \<Rightarrow> (t3, Inl (KeyError [''<out>''])) | Some dir \<Rightarrow>
    (let t4 = t3 @ [Print (''Writing model to directory: '' @ dir)] in
    (case mkdir ext out of Some msg \<Rightarrow> (t4, Inl (LibraryError msg)) | None \<Rightarrow>
    (let t5 = t4 @ [Mkdir out];
         model = path_join out ''model.pkl'' in
    (case dump ext final_model model 3 of Some msg \<Rightarrow> (t5, Inl (LibraryError msg))
     | None \<Rightarrow> (t5 @ [Dump final_model model 3], Inr ())))))))))))))))))"

text \<open>
  The command-line entry point (lines 89 to 92): \<^verbatim>\<open>docopt\<close> has parsed the command line
  into the dictionary \<open>a\<close>, which becomes the module's global \<^verbatim>\<open>arguments\<close>.
\<close>

definition cli ::
  "('m, 'sc::linorder) externals \<Rightarrow> (string \<rightharpoonup> string) \<Rightarrow> ('m, 'sc) event list \<times> (error + unit)" where
  "cli ext a =
    (case a ''<train>'' of None \<Rightarrow> ([], Inl (KeyError [''<train>''])) | Some train \<Rightarrow>
    (let t0 = [Print (''Constructing model from train data '' @ train)] in
    (case a ''<out>'' of None \<Rightarrow> (t0, Inl (KeyError [''<out>''])) | Some out \<Rightarrow>
    (let (t, res) = main ext (Some a) train out in (t0 @ t, res)))))"

subsection \<open>The feature transforms (lines 46 to 52)\<close>

text \<open>
  Modelled from the spec: the three transforms and the column transformer of
  scikit-learn, which are not part of the repository; the source gives their
  configuration (the vocabulary cap, the stop-word list's name, the declared categories,
  the column each transform reads) and the spec their behaviour.

  The text transform. The spec: a vocabulary built from the training corpus, capped at a
  maximum size, excluding a fixed stop-word list; each document becomes a vector of token
  occurrence counts. The spec leaves the tokens to the library: they are taken as its
  default takes them, the lower-cased maximal runs of two or more word characters. The
  stop-word list named \<^verbatim>\<open>'english'\<close> is a table of the library and a parameter here. Under
  the cap the most frequent tokens are kept.
\<close>

definition is_word_char :: "char \<Rightarrow> bool" where
  "is_word_char c =
     (let n = (of_char c :: nat)
      in (48 \<le> n \<and> n \<le> 57) \<or> (65 \<le> n \<and> n \<le> 90) \<or> n = 95 \<or> (97 \<le> n \<and> n \<le> 122) \<or> 128 \<le> n)"

definition lower_char :: "char \<Rightarrow> char" where
  "lower_char c = (let n = (of_char c :: nat) in if 65 \<le> n \<and> n \<le> 90 then char_of (n + 32) else c)"

fun split_words :: "string \<Rightarrow> string \<Rightarrow> string list" where
  "split_words w [] = (if w = [] then [] else [w])"
| "split_words w (c # cs) =
     (if is_word_char c then split_words (w @ [c]) cs
      else (if w = [] then [] else [w]) @ split_words [] cs)"

definition analyze :: "string list \<Rightarrow> string \<Rightarrow> string list" where
  "analyze stops doc =
     filter (\<lambda>w. w \<notin> set stops) (filter (\<lambda>w. 2 \<le> length w) (split_words [] (map lower_char doc)))"

definition document :: "string list \<Rightarrow> cell \<Rightarrow> error + string list" where
  "document stops c =
     (case c of
        Str doc \<Rightarrow> Inr (analyze stops doc)
      | Num x \<Rightarrow> Inl (ValueError ''the document is not a string''))"

definition count_vectorizer_fit :: "nat \<Rightarrow> string list \<Rightarrow> cell list \<Rightarrow> error + string list" where
  "count_vectorizer_fit cap stops corpus =
     (case traverse (document stops) corpus of
        Inl e \<Rightarrow> Inl e
      | Inr docs \<Rightarrow>
          (let tokens = concat docs;
               kept = take cap (sort_values_desc (count_list tokens) (remdups tokens))
           in if kept = [] then Inl (ValueError ''empty vocabulary'') else Inr kept))"

definition count_vectorizer_transform :: "string list \<Rightarrow> string list \<Rightarrow> cell \<Rightarrow> error + rat list" where
  "count_vectorizer_transform stops vocab c =
     (case document stops c of
        Inl e \<Rightarrow> Inl e
      | Inr tokens \<Rightarrow> Inr (map (\<lambda>t. of_nat (count_list tokens t)) vocab))"

text \<open>
  The numeric transform. The spec: standardizes a numeric column with the mean and the
  variance learnt from the training fold. The learnt mean and scale are given; the scale
  of a fitted scaler is not zero.
\<close>

definition standard_scaler_transform :: "rat \<Rightarrow> rat \<Rightarrow> cell \<Rightarrow> error + rat" where
  "standard_scaler_transform m s c =
     (case c of
        Num x \<Rightarrow> Inr ((x - m) / s)
      | Str v \<Rightarrow> Inl (ValueError ''could not convert string to float''))"

text \<open>
  The ordinal transform. The spec: maps each categorical value to its position in the
  fixed declared order; fails with an \<^verbatim>\<open>UnknownCategoryError\<close> if a value outside the
  declared set is encountered at transform time.
\<close>

fun position :: "'a \<Rightarrow> 'a list \<Rightarrow> nat option" where
  "position x [] = None"
| "position x (y # ys) = (if x = y then Some 0 else map_option Suc (position x ys))"

definition ordinal_encoder_transform :: "string list \<Rightarrow> cell \<Rightarrow> error + nat" where
  "ordinal_encoder_transform cats c =
     (case c of
        Str v \<Rightarrow> (case position v cats of None \<Rightarrow> Inl (UnknownCategoryError c) | Some i \<Rightarrow> Inr i)
      | Num x \<Rightarrow> Inl (UnknownCategoryError c))"

text \<open>The ordinal transform of a whole column, row after row.\<close>

definition ordinal_encoder_column :: "string list \<Rightarrow> cell list \<Rightarrow> error + nat list" where
  "ordinal_encoder_column cats col = traverse (ordinal_encoder_transform cats) col"

text \<open>
  The composite preprocessor. The spec: applies each transform to its designated
  column(s) and concatenates the resulting numeric blocks column-wise into one feature
  matrix, preserving row order; any column not explicitly assigned to a transformer is
  excluded; fails if a required column is absent from the input. The blocks are in the
  order of the source's \<^verbatim>\<open>transformers\<close> list: text, numeric, ordinal.
\<close>

record fitted_preprocessor =
  vocabulary :: "string list"
  scaler_mean :: "string \<Rightarrow> rat"
  scaler_scale :: "string \<Rightarrow> rat"

definition transform_row ::
  "string list \<Rightarrow> pipeline \<Rightarrow> fitted_preprocessor \<Rightarrow> (string \<Rightarrow> cell) \<Rightarrow> error + rat list" where
  "transform_row stops pipe st r =
    (case count_vectorizer_transform stops (vocabulary st) (r text_feature) of Inl e \<Rightarrow> Inl e
     | Inr text \<Rightarrow>
    (case traverse (\<lambda>c. standard_scaler_transform (scaler_mean st c) (scaler_scale st c) (r c))
            numeric_features of Inl e \<Rightarrow> Inl e
     | Inr num \<Rightarrow>
    (case traverse (\<lambda>(c, cats). ordinal_encoder_transform cats (r c))
            (zip ordinal_features (ordinal_categories pipe)) of Inl e \<Rightarrow> Inl e
     | Inr ord \<Rightarrow> Inr (text @ num @ map of_nat ord))))"

definition preprocessor_transform ::
  "string list \<Rightarrow> pipeline \<Rightarrow> fitted_preprocessor \<Rightarrow> dataframe \<Rightarrow> error + rat list list" where
  "preprocessor_transform stops pipe st X =
     (case filter (\<lambda>c. c \<notin> set (columns X)) ([text_feature] @ numeric_features @ ordinal_features) of
        m # ms \<Rightarrow> Inl (KeyError (m # ms))
      | [] \<Rightarrow> traverse (transform_row stops pipe st) (rows X))"

subsection \<open>Properties of traces and inputs\<close>

fun is_report :: "('m, 'sc) event \<Rightarrow> bool" where
  "is_report (ToCsv rs p) = True"
| "is_report e = False"

fun is_model :: "('m, 'sc) event \<Rightarrow> bool" where
  "is_model (Dump m p c) = True"
| "is_model e = False"

definition report_written :: "('m, 'sc) event list \<Rightarrow> bool" where
  "report_written tr = list_ex is_report tr"

definition model_written :: "('m, 'sc) event list \<Rightarrow> bool" where
  "model_written tr = list_ex is_model tr"

text \<open>
  \<open>directory_first made tr\<close>: in the trace \<open>tr\<close>, no artifact is written before the step
  that creates the output directory if it is absent; \<open>made\<close> tells whether that step has
  run before the trace starts.
\<close>

fun directory_first :: "bool \<Rightarrow> ('m, 'sc) event list \<Rightarrow> bool" where
  "directory_first made [] = True"
| "directory_first made (Mkdir p # es) = directory_first True es"
| "directory_first made (Print s # es) = directory_first made es"
| "directory_first made (ToCsv rs p # es) = (made \<and> directory_first made es)"
| "directory_first made (Dump m p c # es) = (made \<and> directory_first made es)"

text \<open>
  All-or-nothing: both artifacts are written, or the run failed and none is.
\<close>

definition all_or_nothing :: "('m, 'sc) event list \<times> (error + unit) \<Rightarrow> bool" where
  "all_or_nothing run =
     (report_written (fst run) \<and> model_written (fst run) \<or>
      isl (snd run) \<and> \<not> report_written (fst run) \<and> \<not> model_written (fst run))"

text \<open>
  A valid input of the preprocessor: the columns it reads are there, the text is text,
  the word count is a number and the sentiment is one of the declared categories.
\<close>

definition valid_row :: "pipeline \<Rightarrow> (string \<Rightarrow> cell) \<Rightarrow> bool" where
  "valid_row pipe r =
     ((case r text_feature of Str d \<Rightarrow> True | Num x \<Rightarrow> False) \<and>
      list_all (\<lambda>c. case r c of Num x \<Rightarrow> True | Str v \<Rightarrow> False) numeric_features \<and>
      list_all (\<lambda>(c, cats). list_ex (\<lambda>v. r c = Str v) cats)
        (zip ordinal_features (ordinal_categories pipe)))"

definition valid_input :: "pipeline \<Rightarrow> dataframe \<Rightarrow> bool" where
  "valid_input pipe X =
     (list_all (\<lambda>c. c \<in> set (columns X)) ([text_feature] @ numeric_features @ ordinal_features) \<and>
      list_all (valid_row pipe) (rows X))"

subsection \<open>A sample run\<close>

text \<open>
  Two rows of training data and libraries that always succeed: the cross-validation
  gives the candidate \<open>a\<close> the mean held-out score \<open>- \<bar>a - 725\<bar>\<close>, so that 700 and 750
  tie for the best; a fitted pipeline is the pair of its strength and the number of rows
  it was fitted on. \<open>full_disk_ext\<close> differs in that \<^verbatim>\<open>joblib.dump\<close> raises.
\<close>

definition row_of :: "(string \<times> cell) list \<Rightarrow> string \<Rightarrow> cell" where
  "row_of kvs c = (case map_of kvs c of Some v \<Rightarrow> v | None \<Rightarrow> Str [])"

definition sample_frame :: dataframe where
  "sample_frame =
     \<lparr>columns = [''Id'', ''Author'', ''Text'', ''n_words'', ''sentiment'', ''Rating''],
      rows = [row_of [(''Id'', Num 1), (''Author'', Str ''ann''), (''Text'', Str ''A good movie''),
                      (''n_words'', Num 3), (''sentiment'', Str ''pos''), (''Rating'', Num 8)],
              row_of [(''Id'', Num 2), (''Author'', Str ''bob''), (''Text'', Str []),
                      (''n_words'', Num 0), (''sentiment'', Str ''neg''), (''Rating'', Num 2)]]\<rparr>"

definition sample_scores :: "pipeline \<Rightarrow> int fold_scores" where
  "sample_scores pipe =
     \<lparr>split_test_scores = [], mean_test_score = - \<bar>ridge_alpha pipe - 725\<bar>, mean_train_score = 0\<rparr>"

definition sample_ext :: "(int \<times> nat, int) externals" where
  "sample_ext =
     \<lparr>read_csv = (\<lambda>p. if p = ''train.csv'' then Inr sample_frame else Inl ''No such file''),
      cross_validate = (\<lambda>pipe X y. Inr (sample_scores pipe)),
      fit_pipeline = (\<lambda>pipe X y. Inr (ridge_alpha pipe, length (rows X))),
      show_score = (\<lambda>s. ''-25''),
      to_csv = (\<lambda>rs p. None),
      mkdir = (\<lambda>p. None),
      dump = (\<lambda>m p c. None)\<rparr>"

definition full_disk_ext :: "(int \<times> nat, int) externals" where
  "full_disk_ext = sample_ext\<lparr>dump := (\<lambda>m p c. Some ''No space left on device'')\<rparr>"

definition sample_arguments :: "string \<rightharpoonup> string" where
  "sample_arguments = [''<train>'' \<mapsto> ''train.csv'', ''<out>'' \<mapsto> ''out'']"

definition sample_row :: "int \<Rightarrow> int cv_result" where
  "sample_row a = \<lparr>split_test_scores = [], mean_test_score = - \<bar>a - 725\<bar>, mean_train_score = 0,
     param_ridge_alpha = a\<rparr>"

definition sample_grid :: "int list" where
  "sample_grid = [500, 550, 600, 650, 700, 750, 800, 850, 900, 950]"

definition sample_X :: dataframe where
  "sample_X = sample_frame\<lparr>columns := [''Text'', ''n_words'', ''sentiment'']\<rparr>"

definition sample_y :: "cell list" where
  "sample_y = [Num 8, Num 2]"

definition sample_model :: "(int \<times> nat) estimator" where
  "sample_model = \<lparr>params = ml_pipe\<lparr>ridge_alpha := 700\<rparr>, fitted = Some (700, 2)\<rparr>"

definition sample_search :: "(int \<times> nat, int) grid_search" where
  "sample_search = \<lparr>cv_results = map sample_row sample_grid,
     best_index = 4, best_score = - 25, best_estimator = sample_model\<rparr>"

definition sample_report :: "int cv_result list" where
  "sample_report = map sample_row [700, 750, 650, 800, 600, 850, 550, 900, 500, 950]"

definition sample_state :: fitted_preprocessor where
  "sample_state = \<lparr>vocabulary = [''good'', ''movie''], scaler_mean = (\<lambda>c. 3 / 2),
     scaler_scale = (\<lambda>c. 3 / 2)\<rparr>"

section \<open>Evaluation of the sample run\<close>

lemma param_grid_value: "param_grid = Inr sample_grid"
  by (simp add: param_grid_def arange_def upt_rec sample_grid_def)

lemma sample_evaluate:
  "evaluate_candidate sample_ext ml_pipe X y a = Inr (sample_row a)"
  by (simp add: evaluate_candidate_def sample_ext_def sample_scores_def sample_row_def
      fold_scores.extend_def cv_result.fields_def)

lemma sample_traverse:
  "traverse (evaluate_candidate sample_ext ml_pipe X y) sample_grid = Inr (map sample_row sample_grid)"
  by (simp add: sample_evaluate sample_grid_def)

lemma sample_ext_fields:
  "read_csv sample_ext ''train.csv'' = Inr sample_frame"
  "show_score sample_ext s = ''-25''"
  "to_csv sample_ext rs p = None"
  "mkdir sample_ext q = None"
  "dump sample_ext m q c = None"
  "fit_pipeline sample_ext pipe X y = Inr (ridge_alpha pipe, length (rows X))"
  by (simp_all add: sample_ext_def)

lemma full_disk_ext_fields:
  "read_csv full_disk_ext ''train.csv'' = Inr sample_frame"
  "show_score full_disk_ext s = ''-25''"
  "to_csv full_disk_ext rs p = None"
  "mkdir full_disk_ext q = None"
  "dump full_disk_ext m q c = Some ''No space left on device''"
  "fit_pipeline full_disk_ext pipe X y = Inr (ridge_alpha pipe, length (rows X))"
  "cross_validate full_disk_ext = cross_validate sample_ext"
  by (simp_all add: full_disk_ext_def sample_ext_def)

lemma sample_search_value:
  "grid_search_fit sample_ext ml_pipe sample_grid sample_X sample_y = Inr sample_search"
  unfolding grid_search_fit_def sample_traverse
  by (simp add: sample_row_def fit_estimator_def sample_ext_fields sample_search_def sample_grid_def
      sample_model_def sample_X_def sample_frame_def)

lemma full_disk_search_value:
  "grid_search_fit full_disk_ext ml_pipe sample_grid sample_X sample_y = Inr sample_search"
proof -
  have "evaluate_candidate full_disk_ext ml_pipe sample_X sample_y
          = evaluate_candidate sample_ext ml_pipe sample_X sample_y"
    by (rule ext) (simp add: evaluate_candidate_def full_disk_ext_fields)
  then have "traverse (evaluate_candidate full_disk_ext ml_pipe sample_X sample_y) sample_grid
          = Inr (map sample_row sample_grid)"
    by (simp add: sample_traverse)
  then show ?thesis
    unfolding grid_search_fit_def
    by (simp add: sample_row_def fit_estimator_def full_disk_ext_fields sample_search_def
        sample_grid_def sample_model_def sample_X_def sample_frame_def)
qed

lemma sample_arguments_fields:
  "sample_arguments ''<train>'' = Some ''train.csv''"
  "sample_arguments ''<out>'' = Some ''out''"
  by (simp_all add: sample_arguments_def)

lemma sample_search_fields:
  "best_score sample_search = - 25"
  "best_estimator sample_search = sample_model"
  "best_index sample_search = 4"
  "cv_results sample_search = map sample_row sample_grid"
  by (simp_all add: sample_search_def)

lemma sample_report_value:
  "sort_values_desc mean_test_score (map sample_row sample_grid) = sample_report"
  by (simp add: sample_report_def sample_row_def sample_grid_def)

lemma sample_load:
  "drop_columns (target # drop_features) sample_frame = Inr sample_X"
  "getitem target sample_frame = Inr sample_y"
  by (simp_all add: drop_columns_def getitem_def target_def drop_features_def sample_frame_def
      sample_X_def sample_y_def row_of_def)

lemma sample_refit:
  "fit_estimator sample_ext sample_model sample_X sample_y = Inr sample_model"
  "fit_estimator full_disk_ext sample_model sample_X sample_y = Inr sample_model"
  by (simp_all add: fit_estimator_def sample_ext_fields full_disk_ext_fields sample_model_def
      sample_X_def sample_frame_def)

lemmas sample_facts = sample_ext_fields(1-5) full_disk_ext_fields(1-5) sample_load param_grid_value
  sample_search_value full_disk_search_value sample_search_fields sample_report_value sample_refit

lemma sample_main_direct:
  "main sample_ext None ''train.csv'' ''out'' =
     ([Print ''Searching for hyper-parameters'', Print ''R2 score for best model: -25'',
       ToCsv sample_report ''out/hyper_param_search_result.csv''],
      Inl (NameError ''arguments''))"
  by (simp add: main_def sample_facts Let_def path_join_def)

lemma sample_main_cli:
  "main sample_ext (Some sample_arguments) ''train.csv'' ''out'' =
     ([Print ''Searching for hyper-parameters'', Print ''R2 score for best model: -25'',
       ToCsv sample_report ''out/hyper_param_search_result.csv'',
       Print ''Writing model to directory: out'', Mkdir ''out'',
       Dump sample_model ''out/model.pkl'' 3],
      Inr ())"
  by (simp add: main_def sample_facts Let_def path_join_def sample_arguments_fields)

lemma full_disk_main_cli:
  "main full_disk_ext (Some sample_arguments) ''train.csv'' ''out'' =
     ([Print ''Searching for hyper-parameters'', Print ''R2 score for best model: -25'',
       ToCsv sample_report ''out/hyper_param_search_result.csv'',
       Print ''Writing model to directory: out'', Mkdir ''out''],
      Inl (LibraryError ''No space left on device''))"
  by (simp add: main_def sample_facts Let_def path_join_def sample_arguments_fields)

lemma full_disk_cli:
  "cli full_disk_ext sample_arguments =
     ([Print ''Constructing model from train data train.csv'',
       Print ''Searching for hyper-parameters'', Print ''R2 score for best model: -25'',
       ToCsv sample_report ''out/hyper_param_search_result.csv'',
       Print ''Writing model to directory: out'', Mkdir ''out''],
      Inl (LibraryError ''No space left on device''))"
  by (simp add: cli_def full_disk_main_cli sample_arguments_fields)

lemma sample_cli:
  "cli sample_ext sample_arguments =
     ([Print ''Constructing model from train data train.csv'',
       Print ''Searching for hyper-parameters'', Print ''R2 score for best model: -25'',
       ToCsv sample_report ''out/hyper_param_search_result.csv'',
       Print ''Writing model to directory: out'', Mkdir ''out'',
       Dump sample_model ''out/model.pkl'' 3],
      Inr ())"
  by (simp add: cli_def sample_main_cli sample_arguments_fields)


section \<open>General facts\<close>

lemma traverse_Inr:
  "traverse f xs = Inr ys \<Longrightarrow> list_all2 (\<lambda>x y. f x = Inr y) xs ys"
  by (induction xs arbitrary: ys) (auto split: sum.splits)

lemma traverse_Inl:
  "traverse f xs = Inl e \<Longrightarrow> \<exists>x\<in>set xs. f x = Inl e"
  by (induction xs) (auto split: sum.splits)

lemma traverse_total:
  "\<forall>x\<in>set xs. \<exists>y. f x = Inr y \<Longrightarrow> \<exists>ys. traverse f xs = Inr ys"
  by (induction xs) (auto split: sum.splits)

lemma traverse_cong:
  "(\<And>x. x \<in> set xs \<Longrightarrow> f x = g x) \<Longrightarrow> traverse f xs = traverse g xs"
  by (induction xs) (auto split: sum.splits)

lemma traverse_map: "traverse f (map h xs) = traverse (\<lambda>x. f (h x)) xs"
  by (induction xs) (auto split: sum.splits)

lemma evaluate_candidate_alpha:
  "evaluate_candidate ext pipe X y a = Inr r \<Longrightarrow> param_ridge_alpha r = a"
  by (auto simp: evaluate_candidate_def fold_scores.extend_def cv_result.fields_def split: sum.splits)

lemma evaluate_candidate_scores:
  "evaluate_candidate ext pipe X y a = Inr r \<Longrightarrow>
     \<exists>sc. cross_validate ext (pipe\<lparr>ridge_alpha := a\<rparr>) X y = Inr sc \<and>
          mean_test_score r = mean_test_score sc"
  by (auto simp: evaluate_candidate_def fold_scores.extend_def cv_result.fields_def split: sum.splits)

lemma traverse_candidates_alpha:
  assumes "traverse (evaluate_candidate ext pipe X y) grid = Inr rs"
  shows "map param_ridge_alpha rs = grid"
proof -
  from assms have "list_all2 (\<lambda>a r. evaluate_candidate ext pipe X y a = Inr r) grid rs"
    by (rule traverse_Inr)
  then show ?thesis
    by (induction rule: list_all2_induct) (auto dest: evaluate_candidate_alpha)
qed

lemma select_best_sound:
  assumes "select_best (bi, br) i rs = (j, r)"
    and "length pre = i" and "bi < i" and "pre ! bi = br"
    and "\<forall>k<i. mean_test_score (pre ! k) \<le> mean_test_score br"
    and "\<forall>k<bi. mean_test_score (pre ! k) < mean_test_score br"
  shows "j < length (pre @ rs) \<and> (pre @ rs) ! j = r \<and>
         (\<forall>k<length (pre @ rs). mean_test_score ((pre @ rs) ! k) \<le> mean_test_score r) \<and>
         (\<forall>k<j. mean_test_score ((pre @ rs) ! k) < mean_test_score r)"
  using assms
proof (induction rs arbitrary: bi br i pre)
  case Nil
  then show ?case by auto
next
  case (Cons x rs)
  show ?case
  proof (cases "mean_test_score br < mean_test_score x")
    case True
    with Cons.prems have sel: "select_best (i, x) (Suc i) rs = (j, r)" by simp
    have "j < length ((pre @ [x]) @ rs) \<and> ((pre @ [x]) @ rs) ! j = r \<and>
         (\<forall>k<length ((pre @ [x]) @ rs). mean_test_score (((pre @ [x]) @ rs) ! k) \<le> mean_test_score r) \<and>
         (\<forall>k<j. mean_test_score (((pre @ [x]) @ rs) ! k) < mean_test_score r)"
    proof (rule Cons.IH [OF sel])
      show "length (pre @ [x]) = Suc i" using Cons.prems by simp
      show "i < Suc i" by simp
      show "(pre @ [x]) ! i = x" using Cons.prems by (simp add: nth_append)
      show "\<forall>k<Suc i. mean_test_score ((pre @ [x]) ! k) \<le> mean_test_score x"
        using Cons.prems True by (auto simp: nth_append less_Suc_eq intro: order.trans less_imp_le)
      show "\<forall>k<i. mean_test_score ((pre @ [x]) ! k) < mean_test_score x"
        using Cons.prems True by (auto simp: nth_append intro: le_less_trans)
    qed
    then show ?thesis by simp
  next
    case False
    with Cons.prems have sel: "select_best (bi, br) (Suc i) rs = (j, r)" by simp
    have "j < length ((pre @ [x]) @ rs) \<and> ((pre @ [x]) @ rs) ! j = r \<and>
         (\<forall>k<length ((pre @ [x]) @ rs). mean_test_score (((pre @ [x]) @ rs) ! k) \<le> mean_test_score r) \<and>
         (\<forall>k<j. mean_test_score (((pre @ [x]) @ rs) ! k) < mean_test_score r)"
    proof (rule Cons.IH [OF sel])
      show "length (pre @ [x]) = Suc i" using Cons.prems by simp
      show "bi < Suc i" using Cons.prems by simp
      show "(pre @ [x]) ! bi = br" using Cons.prems by (simp add: nth_append)
      show "\<forall>k<Suc i. mean_test_score ((pre @ [x]) ! k) \<le> mean_test_score br"
        using Cons.prems False by (auto simp: nth_append less_Suc_eq)
      show "\<forall>k<bi. mean_test_score ((pre @ [x]) ! k) < mean_test_score br"
        using Cons.prems by (auto simp: nth_append)
    qed
    then show ?thesis by simp
  qed
qed

lemma select_best_first:
  assumes "select_best (0, r0) 1 rs = (j, r)"
  shows "j < length (r0 # rs) \<and> (r0 # rs) ! j = r \<and>
         (\<forall>k<length (r0 # rs). mean_test_score ((r0 # rs) ! k) \<le> mean_test_score r) \<and>
         (\<forall>k<j. mean_test_score ((r0 # rs) ! k) < mean_test_score r)"
  using select_best_sound [OF assms, of "[r0]"] by simp

lemma grid_search_fit_Inr:
  assumes "grid_search_fit ext pipe grid X y = Inr s"
  shows "traverse (evaluate_candidate ext pipe X y) grid = Inr (cv_results s)"
    and "best_index s < length (cv_results s)"
    and "best_score s = mean_test_score (cv_results s ! best_index s)"
    and "\<forall>k<length (cv_results s). mean_test_score (cv_results s ! k) \<le> best_score s"
    and "\<forall>k<best_index s. mean_test_score (cv_results s ! k) < best_score s"
    and "\<exists>m. fit_pipeline ext (pipe\<lparr>ridge_alpha := param_ridge_alpha (cv_results s ! best_index s)\<rparr>) X y = Inr m \<and>
           best_estimator s =
             \<lparr>params = pipe\<lparr>ridge_alpha := param_ridge_alpha (cv_results s ! best_index s)\<rparr>,
              fitted = Some m\<rparr>"
proof -
  from assms obtain r rs where tr: "traverse (evaluate_candidate ext pipe X y) grid = Inr (r # rs)"
    by (auto simp: grid_search_fit_def split: sum.splits list.splits)
  obtain i best where sel: "select_best (0, r) 1 rs = (i, best)"
    by (cases "select_best (0, r) 1 rs") auto
  from assms tr sel obtain est where
    est: "fit_estimator ext \<lparr>params = pipe\<lparr>ridge_alpha := param_ridge_alpha best\<rparr>, fitted = None\<rparr> X y = Inr est"
    and s: "s = \<lparr>cv_results = r # rs, best_index = i, best_score = mean_test_score best,
                 best_estimator = est\<rparr>"
    by (auto simp: grid_search_fit_def split: sum.splits)
  note sb = select_best_first [OF sel]
  show "traverse (evaluate_candidate ext pipe X y) grid = Inr (cv_results s)"
    using tr s by simp
  show "best_index s < length (cv_results s)" using sb s by simp
  show "best_score s = mean_test_score (cv_results s ! best_index s)" using sb s by simp
  show "\<forall>k<length (cv_results s). mean_test_score (cv_results s ! k) \<le> best_score s"
    using sb s by simp
  show "\<forall>k<best_index s. mean_test_score (cv_results s ! k) < best_score s"
    using sb s by simp
  show "\<exists>m. fit_pipeline ext (pipe\<lparr>ridge_alpha := param_ridge_alpha (cv_results s ! best_index s)\<rparr>) X y = Inr m \<and>
           best_estimator s =
             \<lparr>params = pipe\<lparr>ridge_alpha := param_ridge_alpha (cv_results s ! best_index s)\<rparr>,
              fitted = Some m\<rparr>"
    using est sb s by (auto simp: fit_estimator_def split: sum.splits)
qed

lemma mset_insert_desc: "mset (insert_desc key x xs) = add_mset x (mset xs)"
  by (induction xs) auto

lemma mset_sort_values_desc: "mset (sort_values_desc key xs) = mset xs"
  by (induction xs) (auto simp: mset_insert_desc)

lemma sorted_insert_desc:
  "sorted_wrt (\<lambda>a b. key b \<le> key a) xs \<Longrightarrow> sorted_wrt (\<lambda>a b. key b \<le> key a) (insert_desc key x xs)"
proof (induction xs)
  case Nil
  then show ?case by simp
next
  case (Cons y ys)
  have "set (insert_desc key x ys) = insert x (set ys)"
    using mset_insert_desc [of key x ys] by (metis set_mset_add_mset_insert set_mset_mset)
  with Cons show ?case by (auto intro: order.trans)
qed

lemma sorted_sort_values_desc:
  "sorted_wrt (\<lambda>a b. key b \<le> key a) (sort_values_desc key xs)"
  by (induction xs) (auto intro: sorted_insert_desc)

lemma drop_columns_Inr:
  "drop_columns labels df = Inr X \<Longrightarrow>
     rows X = rows df \<and> columns X = filter (\<lambda>c. c \<notin> set labels) (columns df)"
  by (auto simp: drop_columns_def split: list.splits)

lemma getitem_Inr:
  "getitem label df = Inr col \<Longrightarrow> col = map (\<lambda>r. r label) (rows df)"
  by (auto simp: getitem_def split: if_splits)

section \<open>The runs of main\<close>

lemma main_report_event:
  assumes "ToCsv rs p \<in> set (fst (main ext args train out))"
  shows "\<exists>train_df X y grid s.
           read_csv ext train = Inr train_df \<and>
           drop_columns ([target] @ drop_features) train_df = Inr X \<and>
           getitem target train_df = Inr y \<and> param_grid = Inr grid \<and>
           grid_search_fit ext ml_pipe grid X y = Inr s \<and>
           rs = sort_values_desc mean_test_score (cv_results s) \<and>
           p = path_join out ''hyper_param_search_result.csv''"
  using assms by (auto simp: main_def Let_def split: sum.splits option.splits)

lemma main_success:
  assumes "main ext args train out = (tr, Inr u)"
  shows "\<exists>train_df X y grid s final_model a dir.
           read_csv ext train = Inr train_df \<and>
           drop_columns ([target] @ drop_features) train_df = Inr X \<and>
           getitem target train_df = Inr y \<and> param_grid = Inr grid \<and>
           grid_search_fit ext ml_pipe grid X y = Inr s \<and>
           fit_estimator ext (best_estimator s) X y = Inr final_model \<and>
           args = Some a \<and> a ''<out>'' = Some dir \<and>
           tr = [Print ''Searching for hyper-parameters'',
                 Print (''R2 score for best model: '' @ show_score ext (best_score s)),
                 ToCsv (sort_values_desc mean_test_score (cv_results s))
                   (path_join out ''hyper_param_search_result.csv''),
                 Print (''Writing model to directory: '' @ dir),
                 Mkdir out,
                 Dump final_model (path_join out ''model.pkl'') 3]"
  using assms by (auto simp: main_def Let_def split: sum.splits option.splits)

lemma main_failure_no_model:
  "main ext args train out = (tr, Inl e) \<Longrightarrow> \<not> model_written tr"
  by (auto simp: main_def Let_def model_written_def split: sum.splits option.splits)

lemma fit_estimator_Inl:
  "fit_estimator ext est X y = Inl e \<Longrightarrow> \<exists>msg. e = LibraryError msg"
  by (auto simp: fit_estimator_def split: sum.splits)

lemma grid_search_fit_Inl:
  assumes "grid_search_fit ext pipe grid X y = Inl e"
  shows "(\<exists>msg. e = LibraryError msg) \<or> (\<exists>msg. e = ValueError msg)"
proof (cases "traverse (evaluate_candidate ext pipe X y) grid")
  case (Inl e')
  then obtain a where "evaluate_candidate ext pipe X y a = Inl e'"
    using traverse_Inl by fastforce
  then have "\<exists>msg. e' = LibraryError msg"
    by (auto simp: evaluate_candidate_def split: sum.splits)
  with assms Inl show ?thesis by (simp add: grid_search_fit_def)
next
  case (Inr rs)
  with assms show ?thesis
    by (auto simp: grid_search_fit_def Let_def split: list.splits prod.splits sum.splits
        dest: fit_estimator_Inl)
qed

lemma drop_columns_Inl:
  "drop_columns labels df = Inl e \<Longrightarrow> \<exists>ls. e = KeyError ls"
  by (auto simp: drop_columns_def split: list.splits)

lemma getitem_Inl:
  "getitem label df = Inl e \<Longrightarrow> \<exists>ls. e = KeyError ls"
  by (auto simp: getitem_def split: if_splits)

lemma main_NameError:
  assumes "main ext args train out = (tr, Inl (NameError n))"
  shows "args = None \<and> n = ''arguments'' \<and> report_written tr"
  using assms
  by (auto simp: main_def Let_def report_written_def param_grid_value
      split: sum.splits option.splits
      dest: fit_estimator_Inl grid_search_fit_Inl drop_columns_Inl getitem_Inl)

lemma main_direct_fails:
  "main ext None train out = (tr, res) \<Longrightarrow> isl res"
  by (auto simp: main_def Let_def split: sum.splits option.splits)

lemma cli_result:
  "snd (cli ext a) = Inl e \<Longrightarrow>
     (\<exists>ls. e = KeyError ls) \<or> (\<exists>train out. snd (main ext (Some a) train out) = Inl e)"
  by (auto simp: cli_def Let_def split: option.splits prod.splits) (metis snd_conv)

text \<open>
  An exception leaving the cross-validation of a candidate leaves the search, and an
  exception leaving the search ends \<^verbatim>\<open>main\<close> before anything is written.
\<close>

lemma traverse_error:
  "x \<in> set xs \<Longrightarrow> f x = Inl e \<Longrightarrow> isl (traverse f xs)"
  by (induction xs) (auto split: sum.splits)

lemma cross_validation_error_ends_search:
  assumes "a \<in> set grid" and "cross_validate ext (pipe\<lparr>ridge_alpha := a\<rparr>) X y = Inl msg"
  shows "isl (grid_search_fit ext pipe grid X y)"
proof -
  from assms(2) have "evaluate_candidate ext pipe X y a = Inl (LibraryError msg)"
    by (simp add: evaluate_candidate_def)
  with assms(1) have "isl (traverse (evaluate_candidate ext pipe X y) grid)"
    by (rule traverse_error)
  then show ?thesis
    by (auto simp: grid_search_fit_def isl_def)
qed

lemma search_error_ends_main:
  assumes "read_csv ext train = Inr train_df"
    and "drop_columns ([target] @ drop_features) train_df = Inr X"
    and "getitem target train_df = Inr y"
    and "param_grid = Inr grid"
    and "grid_search_fit ext ml_pipe grid X y = Inl e"
  shows "main ext args train out = ([Print ''Searching for hyper-parameters''], Inl e)"
  using assms by (simp add: main_def param_grid_value)

section \<open>Claims\<close>

text \<open>
  C10. Calling \<^verbatim>\<open>main(train, out)\<close> in a module with no global \<^verbatim>\<open>arguments\<close> never returns
  and never writes the model artifact; when loading, the search, the writing of the
  report and the final fit succeed, it ends with \<^verbatim>\<open>NameError\<close> right after the report
  was written; a \<^verbatim>\<open>NameError\<close> is raised only after the report was written, and never
  through the command-line entry point, which binds \<^verbatim>\<open>arguments\<close>.
\<close>

theorem direct_call_raises_NameError:
  "(main ext None train out = (tr, res) \<longrightarrow>
      isl res \<and> \<not> model_written tr \<and>
      (res = Inl (NameError ''arguments'') \<longrightarrow> report_written tr)) \<and>
   (read_csv ext train = Inr train_df \<and>
    drop_columns ([target] @ drop_features) train_df = Inr X \<and>
    getitem target train_df = Inr y \<and> param_grid = Inr grid \<and>
    grid_search_fit ext ml_pipe grid X y = Inr s \<and>
    to_csv ext (sort_values_desc mean_test_score (cv_results s))
      (path_join out ''hyper_param_search_result.csv'') = None \<and>
    fit_estimator ext (best_estimator s) X y = Inr final_model \<longrightarrow>
      main ext None train out =
        ([Print ''Searching for hyper-parameters'',
          Print (''R2 score for best model: '' @ show_score ext (best_score s)),
          ToCsv (sort_values_desc mean_test_score (cv_results s))
            (path_join out ''hyper_param_search_result.csv'')],
         Inl (NameError ''arguments''))) \<and>
   snd (cli ext a) \<noteq> Inl (NameError n)"
proof (intro conjI impI)
  assume run: "main ext None train out = (tr, res)"
  show "isl res" using run by (rule main_direct_fails)
  then obtain e where "res = Inl e" by (cases res) auto
  with run show "\<not> model_written tr" by (auto dest: main_failure_no_model)
  show "report_written tr" if "res = Inl (NameError ''arguments'')"
    using run that by (auto dest: main_NameError)
next
  assume "read_csv ext train = Inr train_df \<and>
    drop_columns ([target] @ drop_features) train_df = Inr X \<and>
    getitem target train_df = Inr y \<and> param_grid = Inr grid \<and>
    grid_search_fit ext ml_pipe grid X y = Inr s \<and>
    to_csv ext (sort_values_desc mean_test_score (cv_results s))
      (path_join out ''hyper_param_search_result.csv'') = None \<and>
    fit_estimator ext (best_estimator s) X y = Inr final_model"
  then show "main ext None train out =
        ([Print ''Searching for hyper-parameters'',
          Print (''R2 score for best model: '' @ show_score ext (best_score s)),
          ToCsv (sort_values_desc mean_test_score (cv_results s))
            (path_join out ''hyper_param_search_result.csv'')],
         Inl (NameError ''arguments''))"
    by (elim conjE) (simp add: main_def Let_def param_grid_value)
next
  show "snd (cli ext a) \<noteq> Inl (NameError n)"
  proof
    assume "snd (cli ext a) = Inl (NameError n)"
    then obtain train out where "snd (main ext (Some a) train out) = Inl (NameError n)"
      using cli_result by blast
    then have "main ext (Some a) train out = (fst (main ext (Some a) train out), Inl (NameError n))"
      by (metis prod.collapse)
    then show False using main_NameError by blast
  qed
qed

theorem direct_call_raises_NameError_witness:
  "snd (main sample_ext None ''train.csv'' ''out'') = Inl (NameError ''arguments'') \<and>
   report_written (fst (main sample_ext None ''train.csv'' ''out'')) \<and>
   \<not> model_written (fst (main sample_ext None ''train.csv'' ''out''))"
proof -
  have pre: "read_csv sample_ext ''train.csv'' = Inr sample_frame \<and>
    drop_columns ([target] @ drop_features) sample_frame = Inr sample_X \<and>
    getitem target sample_frame = Inr sample_y \<and> param_grid = Inr sample_grid \<and>
    grid_search_fit sample_ext ml_pipe sample_grid sample_X sample_y = Inr sample_search \<and>
    to_csv sample_ext (sort_values_desc mean_test_score (cv_results sample_search))
      (path_join ''out'' ''hyper_param_search_result.csv'') = None \<and>
    fit_estimator sample_ext (best_estimator sample_search) sample_X sample_y = Inr sample_model"
    by (simp add: sample_facts)
  note C10 = direct_call_raises_NameError [of sample_ext "''train.csv''" "''out''"
      "[Print ''Searching for hyper-parameters'', Print ''R2 score for best model: -25'',
        ToCsv sample_report ''out/hyper_param_search_result.csv'']"
      "Inl (NameError ''arguments'')" sample_frame sample_X sample_y sample_grid sample_search
      sample_model sample_arguments "''arguments''"]
  have run: "main sample_ext None ''train.csv'' ''out'' =
     ([Print ''Searching for hyper-parameters'', Print ''R2 score for best model: -25'',
       ToCsv sample_report ''out/hyper_param_search_result.csv''],
      Inl (NameError ''arguments''))"
    using C10 [THEN conjunct2, THEN conjunct1, THEN mp, OF pre]
    by (simp add: sample_ext_fields sample_search_fields sample_report_value path_join_def)
  from C10 [THEN conjunct1, THEN mp, OF run] run show ?thesis by simp
qed

text \<open>
  C3, as stated: the output directory is created, if absent, before any artifact is
  written, and either both artifacts are written or the run fails before any is. In the
  run through the command-line entry point in which \<^verbatim>\<open>joblib.dump\<close> raises, the report
  has been written, the model has not, and the run fails. There, and in the run in which
  nothing raises, the report is written before the step that creates the directory.
\<close>

theorem artifacts_all_or_nothing_counterexample:
  "\<not> (directory_first False (fst (cli full_disk_ext sample_arguments)) \<and>
      all_or_nothing (cli full_disk_ext sample_arguments)) \<and>
   \<not> all_or_nothing (cli full_disk_ext sample_arguments) \<and>
   \<not> directory_first False (fst (cli sample_ext sample_arguments))"
  by (simp add: full_disk_cli sample_cli all_or_nothing_def report_written_def model_written_def)

text \<open>
  C3, amended. The artifacts are written in sequence and nothing is rolled back: a run of
  \<^verbatim>\<open>main\<close> that returns has written both the report and the model artifact, and has
  made the output directory before writing the model artifact, its last effect; a run
  that fails has not written the model artifact; the model artifact is never written
  without the report.
\<close>

theorem artifacts_written_in_sequence:
  "main ext args train out = (tr, res) \<Longrightarrow>
     (res = Inr () \<longrightarrow>
        report_written tr \<and> model_written tr \<and>
        (\<exists>before between m.
           tr = before @ [Mkdir out] @ between @ [Dump m (path_join out ''model.pkl'') 3])) \<and>
     (isl res \<longrightarrow> \<not> model_written tr) \<and>
     (model_written tr \<longrightarrow> report_written tr \<and> res = Inr ())"
proof (intro conjI impI)
  assume run: "main ext args train out = (tr, res)"
  have shape: "\<exists>s1 s2 s3 rs m.
           tr = [Print s1, Print s2, ToCsv rs (path_join out ''hyper_param_search_result.csv''),
                 Print s3, Mkdir out, Dump m (path_join out ''model.pkl'') 3]"
    if "res = Inr ()"
    using main_success [of ext args train out tr "()"] run that by blast
  show "report_written tr" if "res = Inr ()"
    using shape [OF that] by (auto simp: report_written_def)
  show "model_written tr" if "res = Inr ()"
    using shape [OF that] by (auto simp: model_written_def)
  show "\<exists>before between m.
           tr = before @ [Mkdir out] @ between @ [Dump m (path_join out ''model.pkl'') 3]"
    if "res = Inr ()"
  proof -
    from shape [OF that] obtain s1 s2 s3 rs m where
      "tr = [Print s1, Print s2, ToCsv rs (path_join out ''hyper_param_search_result.csv''),
             Print s3] @ [Mkdir out] @ [] @ [Dump m (path_join out ''model.pkl'') 3]"
      by auto
    then show ?thesis by blast
  qed
  show no_model: "\<not> model_written tr" if "isl res"
  proof -
    from that obtain e where "res = Inl e" by (cases res) auto
    with run show ?thesis by (auto dest: main_failure_no_model)
  qed
  show "res = Inr ()" if "model_written tr"
    using that no_model by (cases res) auto
  then show "report_written tr" if "model_written tr"
    using shape that by (auto simp: report_written_def)
qed

theorem artifacts_written_in_sequence_witness:
  "main sample_ext (Some sample_arguments) ''train.csv'' ''out'' =
     ([Print ''Searching for hyper-parameters'', Print ''R2 score for best model: -25'',
       ToCsv sample_report ''out/hyper_param_search_result.csv'',
       Print ''Writing model to directory: out'', Mkdir ''out'',
       Dump sample_model ''out/model.pkl'' 3], Inr ()) \<and>
   model_written (fst (main sample_ext (Some sample_arguments) ''train.csv'' ''out'')) \<and>
   report_written (fst (main sample_ext (Some sample_arguments) ''train.csv'' ''out'')) \<and>
   isl (snd (main full_disk_ext (Some sample_arguments) ''train.csv'' ''out'')) \<and>
   \<not> model_written (fst (main full_disk_ext (Some sample_arguments) ''train.csv'' ''out''))"
proof -
  let ?ok = "main sample_ext (Some sample_arguments) ''train.csv'' ''out''"
  let ?bad = "main full_disk_ext (Some sample_arguments) ''train.csv'' ''out''"
  have ok: "model_written (fst ?ok)"
    by (simp add: sample_main_cli model_written_def)
  have bad: "isl (snd ?bad)"
    by (simp add: full_disk_main_cli)
  have "report_written (fst ?ok)"
    using artifacts_written_in_sequence [of sample_ext "Some sample_arguments" "''train.csv''"
        "''out''" "fst ?ok" "snd ?ok"] ok by simp
  moreover have "\<not> model_written (fst ?bad)"
    using artifacts_written_in_sequence [of full_disk_ext "Some sample_arguments" "''train.csv''"
        "''out''" "fst ?bad" "snd ?bad"] bad by simp
  ultimately show ?thesis using ok bad sample_main_cli by simp
qed

text \<open>
  C6. When \<^verbatim>\<open>main\<close> returns, the estimator written to \<^verbatim>\<open>model.pkl\<close> is the pipeline with
  the strength of the best candidate of the search (a candidate of maximal mean held-out
  score), fitted by \<^verbatim>\<open>fit\<close> on the whole training frame: on all its rows, with the
  columns \<^verbatim>\<open>Rating\<close>, \<^verbatim>\<open>Id\<close> and \<^verbatim>\<open>Author\<close> removed, and on the whole target column.
  It is the last effect of the run and the only model written.
\<close>

theorem persisted_model_is_best_refit_on_whole_frame:
  assumes "main ext args train out = (tr, Inr ())"
  shows "\<exists>train_df X y grid s m.
           read_csv ext train = Inr train_df \<and>
           drop_columns ([target] @ drop_features) train_df = Inr X \<and>
           rows X = rows train_df \<and>
           y = map (\<lambda>r. r target) (rows train_df) \<and>
           param_grid = Inr grid \<and>
           grid_search_fit ext ml_pipe grid X y = Inr s \<and>
           best_index s < length (cv_results s) \<and>
           (\<forall>k<length (cv_results s).
              mean_test_score (cv_results s ! k) \<le> mean_test_score (cv_results s ! best_index s)) \<and>
           fit_pipeline ext
             (ml_pipe\<lparr>ridge_alpha := param_ridge_alpha (cv_results s ! best_index s)\<rparr>) X y = Inr m \<and>
           last tr =
             Dump \<lparr>params = ml_pipe\<lparr>ridge_alpha := param_ridge_alpha (cv_results s ! best_index s)\<rparr>,
                   fitted = Some m\<rparr>
               (path_join out ''model.pkl'') 3 \<and>
           filter is_model tr = [last tr]"
proof -
  from main_success [OF assms] obtain train_df X y grid s final_model a dir where
    load: "read_csv ext train = Inr train_df"
      "drop_columns ([target] @ drop_features) train_df = Inr X"
      "getitem target train_df = Inr y" "param_grid = Inr grid"
    and search: "grid_search_fit ext ml_pipe grid X y = Inr s"
    and fit: "fit_estimator ext (best_estimator s) X y = Inr final_model"
    and tr: "tr = [Print ''Searching for hyper-parameters'',
                 Print (''R2 score for best model: '' @ show_score ext (best_score s)),
                 ToCsv (sort_values_desc mean_test_score (cv_results s))
                   (path_join out ''hyper_param_search_result.csv''),
                 Print (''Writing model to directory: '' @ dir),
                 Mkdir out,
                 Dump final_model (path_join out ''model.pkl'') 3]"
    by blast
  let ?best = "ml_pipe\<lparr>ridge_alpha := param_ridge_alpha (cv_results s ! best_index s)\<rparr>"
  from grid_search_fit_Inr(6) [OF search] obtain m0 where
    est: "best_estimator s = \<lparr>params = ?best, fitted = Some m0\<rparr>"
    by blast
  from fit est obtain m where m: "fit_pipeline ext ?best X y = Inr m"
    and fm: "final_model = \<lparr>params = ?best, fitted = Some m\<rparr>"
    by (auto simp: fit_estimator_def split: sum.splits)
  have "rows X = rows train_df" using drop_columns_Inr [OF load(2)] by simp
  moreover have "y = map (\<lambda>r. r target) (rows train_df)" using getitem_Inr [OF load(3)] .
  moreover have "best_index s < length (cv_results s)" by (rule grid_search_fit_Inr(2) [OF search])
  moreover have "\<forall>k<length (cv_results s).
              mean_test_score (cv_results s ! k) \<le> mean_test_score (cv_results s ! best_index s)"
    using grid_search_fit_Inr(3,4) [OF search] by simp
  moreover have "last tr = Dump \<lparr>params = ?best, fitted = Some m\<rparr> (path_join out ''model.pkl'') 3"
    using tr fm by simp
  moreover have "filter is_model tr = [last tr]" using tr by simp
  ultimately show ?thesis using load search m by blast
qed

theorem persisted_model_is_best_refit_on_whole_frame_witness:
  "main sample_ext (Some sample_arguments) ''train.csv'' ''out'' =
     ([Print ''Searching for hyper-parameters'', Print ''R2 score for best model: -25'',
       ToCsv sample_report ''out/hyper_param_search_result.csv'',
       Print ''Writing model to directory: out'', Mkdir ''out'',
       Dump sample_model ''out/model.pkl'' 3], Inr ()) \<and>
   (\<exists>X y s m.
      rows X = rows sample_frame \<and>
      grid_search_fit sample_ext ml_pipe sample_grid X y = Inr s \<and>
      fit_pipeline sample_ext
        (ml_pipe\<lparr>ridge_alpha := param_ridge_alpha (cv_results s ! best_index s)\<rparr>) X y = Inr m \<and>
      Dump sample_model ''out/model.pkl'' 3 =
        Dump \<lparr>params = ml_pipe\<lparr>ridge_alpha := param_ridge_alpha (cv_results s ! best_index s)\<rparr>,
              fitted = Some m\<rparr> (path_join ''out'' ''model.pkl'') 3)"
proof -
  from persisted_model_is_best_refit_on_whole_frame [OF sample_main_cli]
  obtain train_df X y grid s m where
    "read_csv sample_ext ''train.csv'' = Inr train_df"
    "rows X = rows train_df"
    "param_grid = Inr grid"
    "grid_search_fit sample_ext ml_pipe grid X y = Inr s"
    "fit_pipeline sample_ext
        (ml_pipe\<lparr>ridge_alpha := param_ridge_alpha (cv_results s ! best_index s)\<rparr>) X y = Inr m"
    "Dump sample_model ''out/model.pkl'' 3 =
       Dump \<lparr>params = ml_pipe\<lparr>ridge_alpha := param_ridge_alpha (cv_results s ! best_index s)\<rparr>,
             fitted = Some m\<rparr> (path_join ''out'' ''model.pkl'') 3"
    by auto
  moreover from this have "train_df = sample_frame" "grid = sample_grid"
    by (simp_all add: sample_ext_fields param_grid_value)
  ultimately show ?thesis using sample_main_cli by blast
qed


text \<open>
  C1. The report written by \<^verbatim>\<open>main\<close> holds the rows of the search's results, each once,
  in descending order of mean held-out score. The best candidate of a search has a mean
  held-out score that no candidate exceeds, and every candidate enumerated before it has
  a strictly lower one; its score is the search's best score and its strength the
  strength of the search's best estimator.
\<close>

theorem search_ranks_descending_and_selects_first_maximum:
  "(ToCsv rs p \<in> set (fst (main ext args train out)) \<longrightarrow>
      sorted_wrt (\<lambda>a b. mean_test_score b \<le> mean_test_score a) rs \<and>
      (\<exists>X y grid s. param_grid = Inr grid \<and> grid_search_fit ext ml_pipe grid X y = Inr s \<and>
         mset rs = mset (cv_results s))) \<and>
   (grid_search_fit ext pipe grid X y = Inr s \<longrightarrow>
      best_index s < length (cv_results s) \<and>
      best_score s = mean_test_score (cv_results s ! best_index s) \<and>
      ridge_alpha (params (best_estimator s)) = param_ridge_alpha (cv_results s ! best_index s) \<and>
      (\<forall>k<length (cv_results s). mean_test_score (cv_results s ! k) \<le> best_score s) \<and>
      (\<forall>k<best_index s. mean_test_score (cv_results s ! k) < best_score s))"
proof (intro conjI impI)
  assume "ToCsv rs p \<in> set (fst (main ext args train out))"
  from main_report_event [OF this] obtain X' y' grid' s' where
    *: "param_grid = Inr grid'" "grid_search_fit ext ml_pipe grid' X' y' = Inr s'"
       "rs = sort_values_desc mean_test_score (cv_results s')"
    by blast
  show "sorted_wrt (\<lambda>a b. mean_test_score b \<le> mean_test_score a) rs"
    unfolding *(3) by (rule sorted_sort_values_desc)
  have "mset rs = mset (cv_results s')"
    unfolding *(3) by (rule mset_sort_values_desc)
  with * show "\<exists>X y grid s. param_grid = Inr grid \<and> grid_search_fit ext ml_pipe grid X y = Inr s \<and>
         mset rs = mset (cv_results s)"
    by blast
next
  assume s: "grid_search_fit ext pipe grid X y = Inr s"
  show "best_index s < length (cv_results s)" by (rule grid_search_fit_Inr(2) [OF s])
  show "best_score s = mean_test_score (cv_results s ! best_index s)"
    by (rule grid_search_fit_Inr(3) [OF s])
  show "ridge_alpha (params (best_estimator s)) = param_ridge_alpha (cv_results s ! best_index s)"
    using grid_search_fit_Inr(6) [OF s] by auto
  show "\<forall>k<length (cv_results s). mean_test_score (cv_results s ! k) \<le> best_score s"
    by (rule grid_search_fit_Inr(4) [OF s])
  show "\<forall>k<best_index s. mean_test_score (cv_results s ! k) < best_score s"
    by (rule grid_search_fit_Inr(5) [OF s])
qed

theorem search_ranks_descending_and_selects_first_maximum_witness:
  "ToCsv sample_report ''out/hyper_param_search_result.csv''
     \<in> set (fst (main sample_ext None ''train.csv'' ''out'')) \<and>
   sorted_wrt (\<lambda>a b. mean_test_score b \<le> mean_test_score a) sample_report \<and>
   grid_search_fit sample_ext ml_pipe sample_grid sample_X sample_y = Inr sample_search \<and>
   best_index sample_search = 4 \<and>
   mean_test_score (cv_results sample_search ! 4) = mean_test_score (cv_results sample_search ! 5) \<and>
   mean_test_score (cv_results sample_search ! 0) < best_score sample_search \<and>
   mean_test_score (cv_results sample_search ! 1) < best_score sample_search \<and>
   mean_test_score (cv_results sample_search ! 2) < best_score sample_search \<and>
   mean_test_score (cv_results sample_search ! 3) < best_score sample_search \<and>
   mean_test_score (cv_results sample_search ! 9) \<le> best_score sample_search"
proof -
  have ev: "ToCsv sample_report ''out/hyper_param_search_result.csv''
     \<in> set (fst (main sample_ext None ''train.csv'' ''out''))"
    by (simp add: sample_main_direct)
  have tie: "mean_test_score (cv_results sample_search ! 4) = mean_test_score (cv_results sample_search ! 5)"
    by (simp add: sample_search_def sample_grid_def sample_row_def)
  note C1 = search_ranks_descending_and_selects_first_maximum
    [of sample_report "''out/hyper_param_search_result.csv''" sample_ext None "''train.csv''" "''out''"
      ml_pipe sample_grid sample_X sample_y sample_search]
  have ranked: "sorted_wrt (\<lambda>a b. mean_test_score b \<le> mean_test_score a) sample_report"
    using C1 [THEN conjunct1, THEN mp, OF ev] by blast
  have best: "(\<forall>k<4. mean_test_score (cv_results sample_search ! k) < best_score sample_search) \<and>
      (\<forall>k<length (cv_results sample_search).
         mean_test_score (cv_results sample_search ! k) \<le> best_score sample_search)"
    using C1 [THEN conjunct2, THEN mp, OF sample_search_value]
    unfolding sample_search_fields(3) by blast
  have "length (cv_results sample_search) = 10"
    by (simp add: sample_search_def sample_grid_def)
  with best have
    "mean_test_score (cv_results sample_search ! 0) < best_score sample_search"
    "mean_test_score (cv_results sample_search ! 1) < best_score sample_search"
    "mean_test_score (cv_results sample_search ! 2) < best_score sample_search"
    "mean_test_score (cv_results sample_search ! 3) < best_score sample_search"
    "mean_test_score (cv_results sample_search ! 9) \<le> best_score sample_search"
    by simp_all
  then show ?thesis
    using ev ranked tie sample_search_value sample_search_fields(3) by blast
qed

text \<open>
  C4. The grid is the ten strengths 500, 550, ..., 950 in that order. A search evaluates
  the candidates of its grid in order, one row of results for each, holding the scores
  the cross-validation of the pipeline with that strength returned. The report written
  by \<^verbatim>\<open>main\<close> has ten rows, one for each strength of the grid.
\<close>

theorem grid_is_enumerated_exhaustively:
  "param_grid = Inr [500, 550, 600, 650, 700, 750, 800, 850, 900, 950] \<and>
   (grid_search_fit ext pipe grid X y = Inr s \<longrightarrow>
      map param_ridge_alpha (cv_results s) = grid \<and>
      list_all2 (\<lambda>a r. \<exists>sc. cross_validate ext (pipe\<lparr>ridge_alpha := a\<rparr>) X y = Inr sc \<and>
                         mean_test_score r = mean_test_score sc)
        grid (cv_results s)) \<and>
   (ToCsv rs p \<in> set (fst (main ext args train out)) \<longrightarrow>
      length rs = 10 \<and>
      mset (map param_ridge_alpha rs) = mset [500, 550, 600, 650, 700, 750, 800, 850, 900, 950])"
proof (intro conjI impI)
  show "param_grid = Inr [500, 550, 600, 650, 700, 750, 800, 850, 900, 950]"
    using param_grid_value by (simp add: sample_grid_def)
next
  assume s: "grid_search_fit ext pipe grid X y = Inr s"
  note tr = grid_search_fit_Inr(1) [OF s]
  show "map param_ridge_alpha (cv_results s) = grid"
    by (rule traverse_candidates_alpha [OF tr])
  show "list_all2 (\<lambda>a r. \<exists>sc. cross_validate ext (pipe\<lparr>ridge_alpha := a\<rparr>) X y = Inr sc \<and>
                         mean_test_score r = mean_test_score sc)
        grid (cv_results s)"
    using traverse_Inr [OF tr] by (rule list_all2_mono) (rule evaluate_candidate_scores)
next
  assume "ToCsv rs p \<in> set (fst (main ext args train out))"
  from main_report_event [OF this] obtain X' y' grid' s' where
    *: "param_grid = Inr grid'" "grid_search_fit ext ml_pipe grid' X' y' = Inr s'"
       "rs = sort_values_desc mean_test_score (cv_results s')"
    by blast
  have grid': "grid' = sample_grid" using *(1) by (simp add: param_grid_value)
  have alphas: "map param_ridge_alpha (cv_results s') = sample_grid"
    using traverse_candidates_alpha [OF grid_search_fit_Inr(1) [OF *(2)]] grid' by simp
  have "mset rs = mset (cv_results s')"
    unfolding *(3) by (rule mset_sort_values_desc)
  then have m: "mset (map param_ridge_alpha rs) = mset sample_grid"
    using alphas by (metis mset_map)
  then show "mset (map param_ridge_alpha rs) = mset [500, 550, 600, 650, 700, 750, 800, 850, 900, 950]"
    by (simp add: sample_grid_def)
  from m have "length (map param_ridge_alpha rs) = length sample_grid"
    by (rule mset_eq_length)
  then show "length rs = 10" by (simp add: sample_grid_def)
qed

theorem grid_is_enumerated_exhaustively_witness:
  "grid_search_fit sample_ext ml_pipe sample_grid sample_X sample_y = Inr sample_search \<and>
   map param_ridge_alpha (cv_results sample_search) = sample_grid \<and>
   ToCsv sample_report ''out/hyper_param_search_result.csv''
     \<in> set (fst (main sample_ext None ''train.csv'' ''out'')) \<and>
   length sample_report = 10"
proof -
  have ev: "ToCsv sample_report ''out/hyper_param_search_result.csv''
     \<in> set (fst (main sample_ext None ''train.csv'' ''out''))"
    by (simp add: sample_main_direct)
  note C4 = grid_is_enumerated_exhaustively
    [of sample_ext ml_pipe sample_grid sample_X sample_y sample_search
      sample_report "''out/hyper_param_search_result.csv''" None "''train.csv''" "''out''"]
  from C4 [THEN conjunct2, THEN conjunct1, THEN mp, OF sample_search_value]
    C4 [THEN conjunct2, THEN conjunct2, THEN mp, OF ev]
  show ?thesis using ev sample_search_value by simp
qed

section \<open>The feature transforms\<close>

lemma traverse_Inr_all:
  "traverse f xs = Inr ys \<Longrightarrow> \<forall>x\<in>set xs. \<exists>y. f x = Inr y"
  by (induction xs arbitrary: ys) (auto split: sum.splits)

lemma position_None: "position x xs = None \<longleftrightarrow> x \<notin> set xs"
  by (induction xs) auto

lemma position_Some:
  "position x xs = Some i \<Longrightarrow> i < length xs \<and> xs ! i = x \<and> (\<forall>j<i. xs ! j \<noteq> x)"
proof (induction xs arbitrary: i)
  case Nil
  then show ?case by simp
next
  case (Cons y ys)
  show ?case
  proof (cases "x = y")
    case True
    with Cons.prems show ?thesis by simp
  next
    case False
    with Cons.prems obtain i' where i': "position x ys = Some i'" "i = Suc i'" by auto
    from Cons.IH [OF i'(1)] False i'(2) show ?thesis
      by (auto simp: nth_Cons split: nat.splits)
  qed
qed

lemma ordinal_encoder_transform_known:
  "v \<in> set cats \<Longrightarrow>
     \<exists>i. ordinal_encoder_transform cats (Str v) = Inr i \<and> i < length cats \<and> cats ! i = v \<and>
         (\<forall>j<i. cats ! j \<noteq> v)"
proof -
  assume "v \<in> set cats"
  then obtain i where i: "position v cats = Some i"
    using position_None [of v cats] by (cases "position v cats") auto
  with position_Some [OF i] show ?thesis
    by (simp add: ordinal_encoder_transform_def)
qed

lemma ordinal_encoder_transform_unknown:
  "c \<notin> Str ` set cats \<Longrightarrow> ordinal_encoder_transform cats c = Inl (UnknownCategoryError c)"
  by (cases c) (auto simp: ordinal_encoder_transform_def position_None split: option.splits)

lemma ordinal_encoder_transform_Inl:
  "ordinal_encoder_transform cats c = Inl e \<Longrightarrow> e = UnknownCategoryError c \<and> c \<notin> Str ` set cats"
  by (cases c) (auto simp: ordinal_encoder_transform_def position_None split: option.splits)

text \<open>
  C5. The declared categories are \<^verbatim>\<open>neg\<close>, \<^verbatim>\<open>compound\<close>, \<^verbatim>\<open>neu\<close>, \<^verbatim>\<open>pos\<close>, encoded 0, 1, 2, 3.
  A sentiment column with a value outside the declared categories makes the ordinal
  transform fail with \<^verbatim>\<open>UnknownCategoryError\<close> of such a value, and no code is returned; a
  column of declared categories is encoded, each value as its position in the declared
  order.
\<close>

theorem ordinal_transform_rejects_unknown_category:
  "ordinal_categories ml_pipe = [[''neg'', ''compound'', ''neu'', ''pos'']] \<and>
   ordinal_encoder_column [''neg'', ''compound'', ''neu'', ''pos'']
     [Str ''neg'', Str ''compound'', Str ''neu'', Str ''pos''] = Inr [0, 1, 2, 3] \<and>
   ((\<exists>c\<in>set col. c \<notin> Str ` set cats) \<longrightarrow>
      (\<exists>c\<in>set col. c \<notin> Str ` set cats \<and>
         ordinal_encoder_column cats col = Inl (UnknownCategoryError c))) \<and>
   ((\<forall>c\<in>set col. c \<in> Str ` set cats) \<longrightarrow>
      (\<exists>codes. ordinal_encoder_column cats col = Inr codes \<and> length codes = length col \<and>
         (\<forall>i<length col. codes ! i < length cats \<and> col ! i = Str (cats ! (codes ! i)) \<and>
            (\<forall>j<codes ! i. col ! i \<noteq> Str (cats ! j)))))"
proof (intro conjI impI)
  show "ordinal_categories ml_pipe = [[''neg'', ''compound'', ''neu'', ''pos'']]"
    by (simp add: ml_pipe_def)
  show "ordinal_encoder_column [''neg'', ''compound'', ''neu'', ''pos'']
     [Str ''neg'', Str ''compound'', Str ''neu'', Str ''pos''] = Inr [0, 1, 2, 3]"
    by (simp add: ordinal_encoder_column_def ordinal_encoder_transform_def)
next
  assume "\<exists>c\<in>set col. c \<notin> Str ` set cats"
  then obtain c0 where "c0 \<in> set col" and "c0 \<notin> Str ` set cats" ..
  note c0 = this(1) ordinal_encoder_transform_unknown [OF this(2)]
  have "ordinal_encoder_column cats col \<noteq> Inr codes" for codes
  proof
    assume "ordinal_encoder_column cats col = Inr codes"
    then have "\<forall>c\<in>set col. \<exists>i. ordinal_encoder_transform cats c = Inr i"
      unfolding ordinal_encoder_column_def by (rule traverse_Inr_all)
    with c0(1) obtain i where "ordinal_encoder_transform cats c0 = Inr i" by blast
    with c0(2) show False by simp
  qed
  then obtain e where e: "ordinal_encoder_column cats col = Inl e"
    by (cases "ordinal_encoder_column cats col") auto
  then obtain c where "c \<in> set col" "ordinal_encoder_transform cats c = Inl e"
    unfolding ordinal_encoder_column_def using traverse_Inl by fastforce
  with e ordinal_encoder_transform_Inl [of cats c e]
  show "\<exists>c\<in>set col. c \<notin> Str ` set cats \<and>
         ordinal_encoder_column cats col = Inl (UnknownCategoryError c)"
    by blast
next
  assume known: "\<forall>c\<in>set col. c \<in> Str ` set cats"
  have "\<exists>i. ordinal_encoder_transform cats c = Inr i" if "c \<in> set col" for c
  proof -
    from that known have "c \<in> Str ` set cats" by simp
    then obtain v where "c = Str v" and "v \<in> set cats" ..
    with ordinal_encoder_transform_known [of v cats] show ?thesis by auto
  qed
  then have "\<forall>c\<in>set col. \<exists>i. ordinal_encoder_transform cats c = Inr i" by simp
  from traverse_total [OF this] obtain codes where
    codes: "ordinal_encoder_column cats col = Inr codes"
    by (auto simp: ordinal_encoder_column_def)
  then have all2: "list_all2 (\<lambda>c i. ordinal_encoder_transform cats c = Inr i) col codes"
    unfolding ordinal_encoder_column_def by (rule traverse_Inr)
  have "codes ! i < length cats \<and> col ! i = Str (cats ! (codes ! i)) \<and>
            (\<forall>j<codes ! i. col ! i \<noteq> Str (cats ! j))" if "i < length col" for i
  proof -
    from that known have "col ! i \<in> Str ` set cats" by simp
    then obtain v where v: "col ! i = Str v" "v \<in> set cats" ..
    from all2 that have "ordinal_encoder_transform cats (col ! i) = Inr (codes ! i)"
      by (simp add: list_all2_conv_all_nth)
    with ordinal_encoder_transform_known [OF v(2)] v(1) show ?thesis by auto
  qed
  then have "\<forall>i<length col. codes ! i < length cats \<and> col ! i = Str (cats ! (codes ! i)) \<and>
            (\<forall>j<codes ! i. col ! i \<noteq> Str (cats ! j))"
    by blast
  moreover have "length codes = length col"
    using all2 by (simp add: list_all2_lengthD)
  ultimately show "\<exists>codes. ordinal_encoder_column cats col = Inr codes \<and> length codes = length col \<and>
         (\<forall>i<length col. codes ! i < length cats \<and> col ! i = Str (cats ! (codes ! i)) \<and>
            (\<forall>j<codes ! i. col ! i \<noteq> Str (cats ! j)))"
    using codes by blast
qed

theorem ordinal_transform_rejects_unknown_category_witness:
  "ordinal_encoder_column [''neg'', ''compound'', ''neu'', ''pos''] [Str ''pos'', Str ''bad'', Num 1]
     = Inl (UnknownCategoryError (Str ''bad'')) \<and>
   ordinal_encoder_column [''neg'', ''compound'', ''neu'', ''pos''] [Str ''pos'', Str ''neg'']
     = Inr [3, 0]"
proof -
  have bad: "\<exists>c\<in>set [Str ''pos'', Str ''bad'', Num 1]. c \<notin> Str ` set [''neg'', ''compound'', ''neu'', ''pos'']"
    by auto
  have good: "\<forall>c\<in>set [Str ''pos'', Str ''neg'']. c \<in> Str ` set [''neg'', ''compound'', ''neu'', ''pos'']"
    by auto
  note C5 = ordinal_transform_rejects_unknown_category
  from C5 [of "[Str ''pos'', Str ''bad'', Num 1]" "[''neg'', ''compound'', ''neu'', ''pos'']",
      THEN conjunct2, THEN conjunct2, THEN conjunct1, THEN mp, OF bad]
  have 1: "ordinal_encoder_column [''neg'', ''compound'', ''neu'', ''pos''] [Str ''pos'', Str ''bad'', Num 1]
     = Inl (UnknownCategoryError (Str ''bad''))"
    by (simp add: ordinal_encoder_column_def ordinal_encoder_transform_def)
  from C5 [of "[Str ''pos'', Str ''neg'']" "[''neg'', ''compound'', ''neu'', ''pos'']",
      THEN conjunct2, THEN conjunct2, THEN conjunct2, THEN mp, OF good]
  have 2: "ordinal_encoder_column [''neg'', ''compound'', ''neu'', ''pos''] [Str ''pos'', Str ''neg'']
     = Inr [3, 0]"
    by (simp add: ordinal_encoder_column_def ordinal_encoder_transform_def)
  from 1 2 show ?thesis by blast
qed


lemma transform_row_length:
  "transform_row stops ml_pipe st r = Inr v \<Longrightarrow> length v = length (vocabulary st) + 2"
  by (auto simp: transform_row_def count_vectorizer_transform_def numeric_features_def
      ordinal_features_def ml_pipe_def split: sum.splits)

lemma valid_row_sentiment:
  "valid_row ml_pipe r \<Longrightarrow>
     \<exists>i. ordinal_encoder_transform [''neg'', ''compound'', ''neu'', ''pos''] (r ''sentiment'') = Inr i"
  by (auto simp: valid_row_def ml_pipe_def ordinal_features_def ordinal_encoder_transform_def)

lemma transform_row_valid:
  assumes "valid_row ml_pipe r"
  shows "\<exists>d x i. r text_feature = Str d \<and>
           transform_row stops ml_pipe st r =
             Inr (map (\<lambda>t. of_nat (count_list (analyze stops d) t)) (vocabulary st) @ [x, of_nat i])"
proof -
  from assms obtain d where d: "r text_feature = Str d"
    by (auto simp: valid_row_def split: cell.splits)
  from assms obtain x where x: "r ''n_words'' = Num x"
    by (auto simp: valid_row_def numeric_features_def split: cell.splits)
  from valid_row_sentiment [OF assms] obtain i where
    i: "ordinal_encoder_transform [''neg'', ''compound'', ''neu'', ''pos''] (r ''sentiment'') = Inr i"
    by blast
  show ?thesis
    using d x i
    by (simp add: transform_row_def count_vectorizer_transform_def document_def
        standard_scaler_transform_def numeric_features_def ordinal_features_def ml_pipe_def)
qed

lemma transform_row_unread:
  "c \<noteq> ''Text'' \<Longrightarrow> c \<noteq> ''n_words'' \<Longrightarrow> c \<noteq> ''sentiment'' \<Longrightarrow>
     transform_row stops ml_pipe st (r(c := v)) = transform_row stops ml_pipe st r"
  by (simp add: transform_row_def text_feature_def numeric_features_def ordinal_features_def
      ml_pipe_def cong: sum.case_cong)

lemma required_columns_present:
  "list_all (\<lambda>c. c \<in> set cols) cs \<Longrightarrow> filter (\<lambda>c. c \<notin> set cols) cs = []"
  by (induction cs) auto

lemma preprocessor_transform_Inr:
  "preprocessor_transform stops pipe st X = Inr M \<Longrightarrow>
     list_all2 (\<lambda>r v. transform_row stops pipe st r = Inr v) (rows X) M"
  by (auto simp: preprocessor_transform_def split: list.splits intro: traverse_Inr)

text \<open>
  C7. The composite preprocessor of the pipeline, for a fixed fitted state: an output has
  as many rows as the input and every row has as many entries as the vocabulary plus one
  for the word count and one for the sentiment; a valid input has an output; the cells
  under \<^verbatim>\<open>Id\<close> and \<^verbatim>\<open>Author\<close> do not change the output, nor does dropping these columns.
\<close>

theorem preprocessor_output_shape:
  "(preprocessor_transform stops ml_pipe st X = Inr M \<longrightarrow>
      length M = length (rows X) \<and> (\<forall>v\<in>set M. length v = length (vocabulary st) + 2)) \<and>
   (valid_input ml_pipe X \<longrightarrow> (\<exists>M'. preprocessor_transform stops ml_pipe st X = Inr M')) \<and>
   preprocessor_transform stops ml_pipe st
     (X\<lparr>rows := map (\<lambda>r. r(''Id'' := a r, ''Author'' := b r)) (rows X)\<rparr>)
     = preprocessor_transform stops ml_pipe st X \<and>
   (drop_columns drop_features X = Inr X' \<longrightarrow>
      preprocessor_transform stops ml_pipe st X' = preprocessor_transform stops ml_pipe st X)"
proof (intro conjI impI)
  assume "preprocessor_transform stops ml_pipe st X = Inr M"
  then have all2: "list_all2 (\<lambda>r v. transform_row stops ml_pipe st r = Inr v) (rows X) M"
    by (rule preprocessor_transform_Inr)
  then show "length M = length (rows X)" by (simp add: list_all2_lengthD)
  show "\<forall>v\<in>set M. length v = length (vocabulary st) + 2"
  proof
    fix v assume "v \<in> set M"
    with all2 obtain r where "transform_row stops ml_pipe st r = Inr v"
      by (auto simp: list_all2_conv_all_nth in_set_conv_nth)
    then show "length v = length (vocabulary st) + 2" by (rule transform_row_length)
  qed
next
  assume valid: "valid_input ml_pipe X"
  then have "\<forall>r\<in>set (rows X). \<exists>v. transform_row stops ml_pipe st r = Inr v"
    using transform_row_valid [of _ stops st] by (fastforce simp: valid_input_def list_all_iff)
  moreover from valid
  have "filter (\<lambda>c. c \<notin> set (columns X)) ([text_feature] @ numeric_features @ ordinal_features) = []"
    unfolding valid_input_def by (intro required_columns_present) simp
  ultimately show "\<exists>M'. preprocessor_transform stops ml_pipe st X = Inr M'"
    using traverse_total [of "rows X" "transform_row stops ml_pipe st"]
    by (simp add: preprocessor_transform_def)
next
  have "transform_row stops ml_pipe st (r(''Id'' := a r, ''Author'' := b r))
          = transform_row stops ml_pipe st r" for r
    by (simp add: transform_row_unread)
  then show "preprocessor_transform stops ml_pipe st
     (X\<lparr>rows := map (\<lambda>r. r(''Id'' := a r, ''Author'' := b r)) (rows X)\<rparr>)
     = preprocessor_transform stops ml_pipe st X"
    by (simp add: preprocessor_transform_def traverse_map cong: list.case_cong)
next
  assume "drop_columns drop_features X = Inr X'"
  from drop_columns_Inr [OF this]
  have "rows X' = rows X" "columns X' = filter (\<lambda>c. c \<notin> set drop_features) (columns X)"
    by simp_all
  then show "preprocessor_transform stops ml_pipe st X' = preprocessor_transform stops ml_pipe st X"
    by (simp add: preprocessor_transform_def drop_features_def text_feature_def
        numeric_features_def ordinal_features_def cong: list.case_cong)
qed

lemma sample_X_valid: "valid_input ml_pipe sample_X"
  by (simp add: valid_input_def valid_row_def sample_X_def sample_frame_def row_of_def
      text_feature_def numeric_features_def ordinal_features_def ml_pipe_def)

lemma sample_X_transform:
  "preprocessor_transform [''a''] ml_pipe sample_state sample_X = Inr [[1, 1, 1, 3], [0, 0, - 1, 0]]"
  by (simp add: preprocessor_transform_def transform_row_def count_vectorizer_transform_def
      document_def analyze_def is_word_char_def lower_char_def standard_scaler_transform_def
      ordinal_encoder_transform_def sample_X_def sample_frame_def row_of_def sample_state_def
      text_feature_def numeric_features_def ordinal_features_def ml_pipe_def)

theorem preprocessor_output_shape_witness:
  "valid_input ml_pipe sample_X \<and>
   preprocessor_transform [''a''] ml_pipe sample_state sample_X = Inr [[1, 1, 1, 3], [0, 0, - 1, 0]] \<and>
   length [[1, 1, 1, 3], [0, 0, - 1, 0 :: rat]] = length (rows sample_X) \<and>
   length [1, 1, 1, 3 :: rat] = length (vocabulary sample_state) + 2 \<and>
   length [0, 0, - 1, 0 :: rat] = length (vocabulary sample_state) + 2 \<and>
   drop_columns drop_features sample_frame
     = Inr (sample_frame\<lparr>columns := [''Text'', ''n_words'', ''sentiment'', ''Rating'']\<rparr>) \<and>
   preprocessor_transform [''a''] ml_pipe sample_state
       (sample_frame\<lparr>columns := [''Text'', ''n_words'', ''sentiment'', ''Rating'']\<rparr>)
     = preprocessor_transform [''a''] ml_pipe sample_state sample_frame"
proof -
  have d: "drop_columns drop_features sample_frame
     = Inr (sample_frame\<lparr>columns := [''Text'', ''n_words'', ''sentiment'', ''Rating'']\<rparr>)"
    by (simp add: drop_columns_def drop_features_def sample_frame_def)
  note C7 = preprocessor_output_shape [of "[''a'']" sample_state]
  from C7 [of sample_X "[[1, 1, 1, 3], [0, 0, - 1, 0]]", THEN conjunct1, THEN mp, OF sample_X_transform]
    C7 [of sample_frame _ _ _ "sample_frame\<lparr>columns := [''Text'', ''n_words'', ''sentiment'', ''Rating'']\<rparr>",
      THEN conjunct2, THEN conjunct2, THEN conjunct2, THEN mp, OF d]
    C7 [of sample_X, THEN conjunct2, THEN conjunct1, THEN mp, OF sample_X_valid]
  show ?thesis using sample_X_valid sample_X_transform d by simp
qed

lemma count_vectorizer_fit_cap:
  "count_vectorizer_fit cap stops corpus = Inr vocab \<Longrightarrow> length vocab \<le> cap \<and> vocab \<noteq> []"
  by (auto simp: count_vectorizer_fit_def Let_def split: sum.splits if_splits)

text \<open>
  C9. For every vocabulary, the text transform of the empty string is the vector of that
  vocabulary's width with every count zero, not an error; a fitted vocabulary has at
  most 20000 tokens; a valid row whose text is the empty string is transformed by the
  preprocessor, and its text block is all zero.
\<close>

theorem empty_text_gives_zero_counts:
  "count_vectorizer_transform stops vocab (Str []) = Inr (replicate (length vocab) 0) \<and>
   (count_vectorizer_fit (max_features ml_pipe) stops corpus = Inr vocab' \<longrightarrow>
      length vocab' \<le> 20000 \<and>
      count_vectorizer_transform stops vocab' (Str []) = Inr (replicate (length vocab') 0)) \<and>
   (valid_row ml_pipe r \<and> r text_feature = Str [] \<longrightarrow>
      (\<exists>x i. transform_row stops ml_pipe st r
                = Inr (replicate (length (vocabulary st)) 0 @ [x, i])))"
proof (intro conjI impI)
  show zero: "count_vectorizer_transform stops vocab (Str []) = Inr (replicate (length vocab) 0)"
    for vocab
    by (simp add: count_vectorizer_transform_def document_def analyze_def map_replicate_const)
  show "length vocab' \<le> 20000"
    if "count_vectorizer_fit (max_features ml_pipe) stops corpus = Inr vocab'"
    using count_vectorizer_fit_cap [OF that] by (simp add: ml_pipe_def)
  show "count_vectorizer_transform stops vocab' (Str []) = Inr (replicate (length vocab') 0)"
    by (rule zero)
next
  assume "valid_row ml_pipe r \<and> r text_feature = Str []"
  then have v: "valid_row ml_pipe r" and e: "r text_feature = Str []" by simp_all
  from transform_row_valid [OF v, of stops st] e
  show "\<exists>x i. transform_row stops ml_pipe st r
                = Inr (replicate (length (vocabulary st)) 0 @ [x, i])"
    by (auto simp: analyze_def map_replicate_const)
qed

theorem empty_text_gives_zero_counts_witness:
  "count_vectorizer_fit (max_features ml_pipe) [''a''] [Str ''A good movie'', Str [], Str ''good'']
     = Inr [''good'', ''movie''] \<and>
   count_vectorizer_transform [''a''] [''good'', ''movie''] (Str []) = Inr [0, 0] \<and>
   valid_row ml_pipe (rows sample_X ! 1) \<and> (rows sample_X ! 1) text_feature = Str [] \<and>
   transform_row [''a''] ml_pipe sample_state (rows sample_X ! 1) = Inr [0, 0, - 1, 0]"
proof -
  have f: "count_vectorizer_fit (max_features ml_pipe) [''a''] [Str ''A good movie'', Str [], Str ''good'']
     = Inr [''good'', ''movie'']"
    by (simp add: count_vectorizer_fit_def document_def analyze_def is_word_char_def lower_char_def
        ml_pipe_def)
  have r: "valid_row ml_pipe (rows sample_X ! 1) \<and> (rows sample_X ! 1) text_feature = Str []"
    by (simp add: valid_row_def sample_X_def sample_frame_def row_of_def
        text_feature_def numeric_features_def ordinal_features_def ml_pipe_def)
  note C9 = empty_text_gives_zero_counts [of "[''a'']"]
  have "count_vectorizer_transform [''a''] [''good'', ''movie''] (Str []) = Inr [0, 0]"
    using C9 [of _ "[Str ''A good movie'', Str [], Str ''good'']" "[''good'', ''movie'']",
        THEN conjunct2, THEN conjunct1, THEN mp, OF f]
    by (simp add: numeral_2_eq_2)
  moreover have "transform_row [''a''] ml_pipe sample_state (rows sample_X ! 1) = Inr [0, 0, - 1, 0]"
    using C9 [of _ _ _ "rows sample_X ! 1" sample_state,
        THEN conjunct2, THEN conjunct2, THEN mp, OF r]
    by (simp add: transform_row_def count_vectorizer_transform_def
      document_def analyze_def standard_scaler_transform_def
      ordinal_encoder_transform_def sample_X_def sample_frame_def row_of_def sample_state_def
      text_feature_def numeric_features_def ordinal_features_def ml_pipe_def)
  ultimately show ?thesis using f r by blast
qed

end
